theory Spec2Isabelle
  imports Complex_Main "HOL-Library.Char_ord" "HOL-Library.List_Lexorder"
begin

section \<open>Data model (types.ts)\<close>

text \<open>
  The trading journal keeps a collection of closed trades and derives views from it.
  JavaScript numbers are modelled as exact rationals (the specification calls prices
  decimals); quantities and confidence ratings are integers. A string is a list of
  characters, compared lexicographically by character code as JavaScript's \<open><\<close> does
  for ASCII text. Optional fields are \<open>option\<close> values.
\<close>

datatype BrokerName = Zerodha | Fyers | Dhan | Angel_One

datatype Segment = Equity | F_and_O

datatype ProductType = Intraday | Delivery

record Trade =
  id' :: string
  date :: string
  symbol :: string
  broker :: BrokerName
  entryPrice :: rat
  exitPrice :: rat
  quantity :: int
  pnl :: rat
  segment :: Segment
  productType :: "ProductType option"
  confidence :: int
  strategy :: string
  notes' :: string
  mistake :: "string option"
  aiAnalysis :: "string option"

text \<open>\<open>bestBroker\<close> has the type \<open>BrokerName | 'N/A'\<close>.\<close>

datatype BestBroker = N_A | Broker BrokerName

record Metrics =
  totalPnL :: rat
  winRate :: rat
  avgTradeValue :: rat
  totalTrades :: nat
  tradesToday :: nat
  bestBroker :: BestBroker

text \<open>The strings a broker name, a segment and a product type stand for.\<close>

fun brokerString :: "BrokerName \<Rightarrow> string" where
  "brokerString Zerodha = ''Zerodha''"
| "brokerString Fyers = ''Fyers''"
| "brokerString Dhan = ''Dhan''"
| "brokerString Angel_One = ''Angel One''"

fun segmentString :: "Segment \<Rightarrow> string" where
  "segmentString Equity = ''Equity''"
| "segmentString F_and_O = ''F&O''"

fun productTypeString :: "ProductType \<Rightarrow> string" where
  "productTypeString Intraday = ''Intraday''"
| "productTypeString Delivery = ''Delivery''"

section \<open>The JavaScript library, as far as the code uses it\<close>

text \<open>
  The \<open>Date\<close> class is a parameter of the model: \<open>getTime L s\<close> is
  \<open>new Date(s).getTime()\<close>, the instant a date string denotes in milliseconds,
  \<open>toDateString L ms\<close> is the local calendar day of an instant as
  \<open>Date.prototype.toDateString\<close> prints it, and \<open>toISOString L ms\<close> is the ISO
  string of an instant. The current time is an explicit argument \<open>now\<close> wherever the
  code reads the clock.
\<close>

record DateLib =
  getTime :: "string \<Rightarrow> int"
  toDateString :: "int \<Rightarrow> string"
  toISOString :: "int \<Rightarrow> string"

text \<open>\<open>String.prototype.toLowerCase\<close> and \<open>toUpperCase\<close> on ASCII letters.\<close>

definition toLowerChar :: "char \<Rightarrow> char" where
  "toLowerChar c =
     (let n = (of_char c :: nat) in if 65 \<le> n \<and> n \<le> 90 then char_of (n + 32) else c)"


definition toLowerCase :: "string \<Rightarrow> string" where
  "toLowerCase s = map toLowerChar s"





text \<open>
  A plain object used as a dictionary keeps its keys in insertion order
  (\<open>Object.values\<close>, \<open>Object.entries\<close>): an association list in which \<open>obj_set\<close>
  overwrites an existing key in place and appends a new one at the end. The keys the
  code builds (broker names, day-symbol-broker keys, strategy names, ticker symbols)
  are taken not to be array indices or names of \<open>Object.prototype\<close>.
\<close>

fun obj_get :: "('k \<times> 'v) list \<Rightarrow> 'k \<Rightarrow> 'v option" where
  "obj_get [] k = None"
| "obj_get ((k', v) # kvs) k = (if k' = k then Some v else obj_get kvs k)"

fun obj_set :: "'k \<Rightarrow> 'v \<Rightarrow> ('k \<times> 'v) list \<Rightarrow> ('k \<times> 'v) list" where
  "obj_set k v [] = [(k, v)]"
| "obj_set k v ((k', v') # kvs) =
     (if k' = k then (k, v) # kvs else (k', v') # obj_set k v kvs)"

definition Object_values :: "('k \<times> 'v) list \<Rightarrow> 'v list" where
  "Object_values obj = map snd obj"

text \<open>
  \<open>Array.prototype.sort\<close> with a comparator is stable: an element is placed before
  the first element it does not compare greater than.
\<close>

fun insertBy :: "('a \<Rightarrow> 'a \<Rightarrow> 'b::{zero,ord}) \<Rightarrow> 'a \<Rightarrow> 'a list \<Rightarrow> 'a list" where
  "insertBy cmp x [] = [x]"
| "insertBy cmp x (y # ys) =
     (if cmp x y \<le> 0 then x # y # ys else y # insertBy cmp x ys)"

definition sortBy :: "('a \<Rightarrow> 'a \<Rightarrow> 'b::{zero,ord}) \<Rightarrow> 'a list \<Rightarrow> 'a list" where
  "sortBy cmp xs = foldr (insertBy cmp) xs []"

section \<open>The store (context/Store.tsx)\<close>

text \<open>
  The provider holds the trade collection and the strategy list in memory, mirrored
  from the browser database. A database call either completes or rejects; its outcome
  is an argument of each operation.
\<close>

record Store =
  trades :: "Trade list"
  strategies :: "string list"

datatype DbOutcome = Resolved | Rejected

definition byDateDesc :: "DateLib \<Rightarrow> Trade \<Rightarrow> Trade \<Rightarrow> int" where
  "byDateDesc L a b = getTime L (date b) - getTime L (date a)"

definition addTrade :: "DbOutcome \<Rightarrow> Trade \<Rightarrow> Store \<Rightarrow> Store" where
  "addTrade db trade st =
     (case db of Rejected \<Rightarrow> st | Resolved \<Rightarrow> st\<lparr>trades := trade # trades st\<rparr>)"

definition updateTrade :: "DbOutcome \<Rightarrow> Trade \<Rightarrow> Store \<Rightarrow> Store" where
  "updateTrade db trade st =
     (case db of Rejected \<Rightarrow> st
      | Resolved \<Rightarrow> st\<lparr>trades := map (\<lambda>t. if id' t = id' trade then trade else t) (trades st)\<rparr>)"

text \<open>\<open>new Map(entries)\<close>: a later entry with the same key replaces an earlier one.\<close>

definition updatesMap :: "Trade list \<Rightarrow> (string \<times> Trade) list" where
  "updatesMap updatedTrades = fold (\<lambda>t m. obj_set (id' t) t m) updatedTrades []"

definition updateTradesBulk :: "DbOutcome \<Rightarrow> Trade list \<Rightarrow> Store \<Rightarrow> Store" where
  "updateTradesBulk db updatedTrades st =
     (case db of Rejected \<Rightarrow> st
      | Resolved \<Rightarrow>
          st\<lparr>trades :=
               map (\<lambda>t. case obj_get (updatesMap updatedTrades) (id' t) of
                          Some u \<Rightarrow> u | None \<Rightarrow> t) (trades st)\<rparr>)"

definition importTrades :: "DateLib \<Rightarrow> DbOutcome \<Rightarrow> Trade list \<Rightarrow> Store \<Rightarrow> Store" where
  "importTrades L db newTrades st =
     (case db of Rejected \<Rightarrow> st
      | Resolved \<Rightarrow> st\<lparr>trades := sortBy (byDateDesc L) (newTrades @ trades st)\<rparr>)"

text \<open>
  \<open>addStrategy\<close> sets the new list before it awaits the database, so the list in
  memory does not depend on the database's outcome.
\<close>

definition addStrategy :: "string \<Rightarrow> Store \<Rightarrow> Store" where
  "addStrategy s st =
     (if s \<notin> set (strategies st)
      then st\<lparr>strategies := strategies st @ [s]\<rparr> else st)"

text \<open>The list \<open>getStrategies\<close> falls back to when nothing has been saved.\<close>

definition defaultStrategies :: "string list" where
  "defaultStrategies = [''Manual'', ''Trend-Following'', ''Mean-Reversion'', ''Breakout'']"

subsection \<open>getMetrics\<close>

definition brokerPnL_step :: "Trade \<Rightarrow> (BrokerName \<times> rat) list \<Rightarrow> (BrokerName \<times> rat) list" where
  "brokerPnL_step t brokerPnL =
     obj_set (broker t)
       ((case obj_get brokerPnL (broker t) of None \<Rightarrow> 0 | Some v \<Rightarrow> v) + pnl t) brokerPnL"

text \<open>\<open>maxPnL\<close> starts at \<open>-Infinity\<close>, the value \<open>None\<close>, which every number exceeds.\<close>

fun exceeds :: "rat \<Rightarrow> rat option \<Rightarrow> bool" where
  "exceeds p None = True"
| "exceeds p (Some m) = (p > m)"

fun bestBroker_step :: "BrokerName \<times> rat \<Rightarrow> rat option \<times> BestBroker \<Rightarrow> rat option \<times> BestBroker" where
  "bestBroker_step (b, p) (maxPnL, best) =
     (if exceeds p maxPnL then (Some p, Broker b) else (maxPnL, best))"

definition getMetrics :: "DateLib \<Rightarrow> int \<Rightarrow> Trade list \<Rightarrow> Metrics" where
  "getMetrics L now ts =
     (let total = foldl (\<lambda>acc t. acc + pnl t) 0 ts;
          winningTrades = filter (\<lambda>t. pnl t > 0) ts;
          today = toDateString L now;
          brokerPnL = fold brokerPnL_step ts []
      in \<lparr> totalPnL = total,
           winRate = (if length ts > 0
                      then (of_nat (length winningTrades) / of_nat (length ts)) * 100 else 0),
           avgTradeValue = (if length ts > 0 then total / of_nat (length ts) else 0),
           totalTrades = length ts,
           tradesToday = length (filter (\<lambda>t. toDateString L (getTime L (date t)) = today) ts),
           bestBroker = snd (fold bestBroker_step brokerPnL (None, N_A)) \<rparr>)"

section \<open>Trade history: filter, group, sort (pages/TradeHistory.tsx)\<close>

record GroupedTrade =
  id_g :: string
  date_g :: string
  symbol_g :: string
  broker_g :: string
  totalPnL_g :: rat
  totalQty :: int
  trades_g :: "Trade list"

datatype SortField = by_date | by_symbol | by_broker | by_totalPnL | by_totalQty

datatype SortDirection = asc | desc

text \<open>
  The four filters are the values of the select boxes, strings of which \<open>'All'\<close>
  switches a filter off.
\<close>

record Filters =
  filterBroker :: string
  filterSegment :: string
  filterStrategy :: string
  filterProductType :: string

definition passesFilters :: "Filters \<Rightarrow> Trade \<Rightarrow> bool" where
  "passesFilters F t =
     (if filterBroker F \<noteq> ''All'' \<and> brokerString (broker t) \<noteq> filterBroker F then False
      else if filterSegment F \<noteq> ''All'' \<and> segmentString (segment t) \<noteq> filterSegment F then False
      else if filterStrategy F \<noteq> ''All'' \<and> strategy t \<noteq> filterStrategy F then False
      else if filterProductType F \<noteq> ''All'' \<and>
              (case productType t of None \<Rightarrow> ''Delivery'' | Some p \<Rightarrow> productTypeString p)
                \<noteq> filterProductType F then False
      else True)"

definition groupKey :: "DateLib \<Rightarrow> Trade \<Rightarrow> string" where
  "groupKey L trade =
     toDateString L (getTime L (date trade)) @ ''_'' @ symbol trade @ ''_'' @
       brokerString (broker trade)"

definition newGroup :: "string \<Rightarrow> Trade \<Rightarrow> GroupedTrade" where
  "newGroup key trade =
     \<lparr> id_g = key, date_g = date trade, symbol_g = symbol trade,
       broker_g = brokerString (broker trade), totalPnL_g = 0, totalQty = 0, trades_g = [] \<rparr>"

definition pushTrade :: "Trade \<Rightarrow> GroupedTrade \<Rightarrow> GroupedTrade" where
  "pushTrade trade g =
     g\<lparr> trades_g := trades_g g @ [trade],
        totalPnL_g := totalPnL_g g + pnl trade,
        totalQty := totalQty g + quantity trade \<rparr>"

text \<open>One round of the \<open>forEach\<close> that fills \<open>groups\<close>.\<close>

definition addToGroups :: "DateLib \<Rightarrow> Trade \<Rightarrow> (string \<times> GroupedTrade) list \<Rightarrow> (string \<times> GroupedTrade) list" where
  "addToGroups L trade groups =
     (let key = groupKey L trade;
          groups1 = (case obj_get groups key of
                       None \<Rightarrow> obj_set key (newGroup key trade) groups
                     | Some g \<Rightarrow> groups)
      in case obj_get groups1 key of
           None \<Rightarrow> groups1
         | Some g \<Rightarrow> obj_set key (pushTrade trade g) groups1)"

text \<open>
  The comparator reads the sort field dynamically (\<open>a[sortField]\<close>), so its operands
  are numbers or strings. Both operands come from the same field and have the same
  type; a mixed comparison does not occur and is \<open>False\<close> here.
\<close>

datatype jsval = JNum rat | JStr string

fun getField :: "GroupedTrade \<Rightarrow> SortField \<Rightarrow> jsval" where
  "getField g by_date = JStr (date_g g)"
| "getField g by_symbol = JStr (symbol_g g)"
| "getField g by_broker = JStr (broker_g g)"
| "getField g by_totalPnL = JNum (totalPnL_g g)"
| "getField g by_totalQty = JNum (of_int (totalQty g))"

fun js_less :: "jsval \<Rightarrow> jsval \<Rightarrow> bool" where
  "js_less (JNum x) (JNum y) = (x < y)"
| "js_less (JStr s) (JStr t) = (s < t)"
| "js_less _ _ = False"

fun lowered :: "jsval \<Rightarrow> jsval" where
  "lowered (JStr s) = JStr (toLowerCase s)"
| "lowered v = v"

definition compareGroups :: "DateLib \<Rightarrow> SortField \<Rightarrow> SortDirection \<Rightarrow> GroupedTrade \<Rightarrow> GroupedTrade \<Rightarrow> int" where
  "compareGroups L sortField sortDirection a b =
     (let valA0 = (if sortField = by_date then JNum (of_int (getTime L (date_g a)))
                   else getField a sortField);
          valB0 = (if sortField = by_date then JNum (of_int (getTime L (date_g b)))
                   else getField b sortField);
          valA = (case valA0 of JStr s \<Rightarrow> lowered valA0 | JNum x \<Rightarrow> valA0);
          valB = (case valA0 of JStr s \<Rightarrow> lowered valB0 | JNum x \<Rightarrow> valB0)
      in if js_less valA valB then (if sortDirection = asc then - 1 else 1)
         else if js_less valB valA then (if sortDirection = asc then 1 else - 1)
         else 0)"

definition groupTrades :: "DateLib \<Rightarrow> Trade list \<Rightarrow> GroupedTrade list" where
  "groupTrades L filteredTrades = Object_values (fold (addToGroups L) filteredTrades [])"

definition groupedTrades ::
  "DateLib \<Rightarrow> Filters \<Rightarrow> SortField \<Rightarrow> SortDirection \<Rightarrow> Trade list \<Rightarrow> GroupedTrade list" where
  "groupedTrades L F sortField sortDirection ts =
     sortBy (compareGroups L sortField sortDirection)
       (groupTrades L (filter (passesFilters F) ts))"

definition handleSort :: "SortField \<Rightarrow> SortField \<times> SortDirection \<Rightarrow> SortField \<times> SortDirection" where
  "handleSort field st =
     (case st of (sortField, sortDirection) \<Rightarrow>
        if sortField = field then (sortField, if sortDirection = asc then desc else asc)
        else (field, desc))"

section \<open>Creating trades\<close>

subsection \<open>Manual entry (pages/NewTrade.tsx)\<close>







subsection \<open>Broker sync (services/brokerApiService.ts)\<close>








section \<open>Statistics per strategy and per symbol (pages/Analysis.tsx)\<close>



record SymbolRaw =
  symbol_y :: string
  pnl_y :: rat
  wins :: nat
  total :: nat


record DateRange =
  start :: string
  end' :: string

definition filteredTrades :: "DateLib \<Rightarrow> DateRange \<Rightarrow> Trade list \<Rightarrow> Trade list" where
  "filteredTrades L dateRange ts =
     (if start dateRange = '''' \<and> end' dateRange = '''' then ts
      else let lo = (if start dateRange \<noteq> '''' then getTime L (start dateRange) else 0);
               hi = (if end' dateRange \<noteq> '''' then Some (getTime L (end' dateRange) + 86400000)
                     else None)
           in filter (\<lambda>t. let tradeDate = getTime L (date t)
                         in tradeDate \<ge> lo \<and> (case hi of None \<Rightarrow> True | Some h \<Rightarrow> tradeDate \<le> h)) ts)"











section \<open>Notions used to state the properties\<close>

text \<open>
  What the dictionary of groups holds after the trades \<open>ts\<close> have been processed: one
  entry per key that occurs, holding the trades with that key in their order and the
  sums of their \<open>pnl\<close> and \<open>quantity\<close>.
\<close>

definition groupsInv :: "DateLib \<Rightarrow> Trade list \<Rightarrow> (string \<times> GroupedTrade) list \<Rightarrow> bool" where
  "groupsInv L ts m \<longleftrightarrow>
     distinct (map fst m) \<and> fst ` set m = groupKey L ` set ts \<and>
     (\<forall>p \<in> set m.
        id_g (snd p) = fst p \<and>
        trades_g (snd p) = filter (\<lambda>t. groupKey L t = fst p) ts \<and>
        totalPnL_g (snd p) = sum_list (map pnl (trades_g (snd p))) \<and>
        totalQty (snd p) = sum_list (map quantity (trades_g (snd p))))"





section \<open>Sample data\<close>

text \<open>A trade with the defaults of an imported one, for concrete evaluations.\<close>

definition sampleTrade :: "string \<Rightarrow> string \<Rightarrow> string \<Rightarrow> BrokerName \<Rightarrow> rat \<Rightarrow> rat \<Rightarrow> int \<Rightarrow> Trade" where
  "sampleTrade i d s b entry exit q =
     \<lparr> id' = i, date = d, symbol = s, broker = b, entryPrice = entry, exitPrice = exit,
       quantity = q, pnl = (exit - entry) * of_int q, segment = Equity, productType = None,
       confidence = 5, strategy = ''Manual'', notes' = ''Imported via Tradebook CSV'',
       mistake = None, aiAnalysis = None \<rparr>"

text \<open>
  A \<open>Date\<close> library restricted to three instants of the first days of 1970 (UTC), which
  is all the concrete evaluations need.
\<close>

definition sampleLib :: DateLib where
  "sampleLib =
     \<lparr> getTime = (\<lambda>s. if s = ''1970-01-01T10:00:00.000Z'' then 36000000
                      else if s = ''1970-01-02T10:00:00.000Z'' then 122400000
                      else if s = ''1970-01-02T11:00:00.000Z'' then 126000000 else 0),
       toDateString = (\<lambda>ms. if ms div 86400000 = 0 then ''Thu Jan 01 1970''
                            else if ms div 86400000 = 1 then ''Fri Jan 02 1970''
                            else ''Sat Jan 03 1970''),
       toISOString = (\<lambda>ms. if ms = 36000000 then ''1970-01-01T10:00:00.000Z''
                           else if ms = 122400000 then ''1970-01-02T10:00:00.000Z''
                           else if ms = 126000000 then ''1970-01-02T11:00:00.000Z''
                           else ''1970-01-01T00:00:00.000Z'') \<rparr>"



text \<open>Two groups and the filter setting that lets every trade pass.\<close>

definition sampleGroupA :: GroupedTrade where
  "sampleGroupA =
     \<lparr> id_g = ''Thu Jan 01 1970_abc_Zerodha'', date_g = ''1970-01-01T10:00:00.000Z'',
       symbol_g = ''abc'', broker_g = ''Zerodha'', totalPnL_g = 30, totalQty = 12,
       trades_g = [] \<rparr>"

definition sampleGroupB :: GroupedTrade where
  "sampleGroupB =
     \<lparr> id_g = ''Fri Jan 02 1970_XYZ_Dhan'', date_g = ''1970-01-02T10:00:00.000Z'',
       symbol_g = ''XYZ'', broker_g = ''Dhan'', totalPnL_g = - 20, totalQty = 2,
       trades_g = [] \<rparr>"

definition noFilters :: Filters where
  "noFilters =
     \<lparr> filterBroker = ''All'', filterSegment = ''All'', filterStrategy = ''All'',
       filterProductType = ''All'' \<rparr>"

section \<open>Properties of the store\<close>

lemma obj_get_obj_set: "obj_get (obj_set k v m) k' = (if k' = k then Some v else obj_get m k')"
  by (induction m) auto

lemma obj_get_None_iff: "obj_get m k = None \<longleftrightarrow> k \<notin> fst ` set m"
  by (induction m) force+

lemma obj_get_Some_mem: "obj_get m k = Some v \<Longrightarrow> (k, v) \<in> set m"
  by (induction m) (auto split: if_splits)

lemma keys_obj_set:
  "map fst (obj_set k v m) = (if k \<in> fst ` set m then map fst m else map fst m @ [k])"
  by (induction m) force+

lemma updatesMap_get_snoc:
  "obj_get (updatesMap (us @ [u])) k = (if k = id' u then Some u else obj_get (updatesMap us) k)"
  by (simp add: updatesMap_def obj_get_obj_set)

lemma updatesMap_None: "obj_get (updatesMap us) k = None \<longleftrightarrow> k \<notin> id' ` set us"
proof (induction us rule: rev_induct)
  case Nil
  show ?case by (simp add: updatesMap_def)
next
  case (snoc u us)
  show ?case unfolding updatesMap_get_snoc using snoc.IH by auto
qed

lemma updatesMap_Some: "obj_get (updatesMap us) k = Some u \<Longrightarrow> u \<in> set us \<and> id' u = k"
proof (induction us rule: rev_induct)
  case Nil
  then show ?case by (simp add: updatesMap_def)
next
  case (snoc x us)
  then show ?case unfolding updatesMap_get_snoc by (auto split: if_splits)
qed

lemma updatesMap_last:
  "obj_get (updatesMap us) k =
     (if k \<in> id' ` set us then Some (last (filter (\<lambda>u. id' u = k) us)) else None)"
proof (induction us rule: rev_induct)
  case Nil
  show ?case by (simp add: updatesMap_def)
next
  case (snoc u us)
  show ?case unfolding updatesMap_get_snoc using snoc.IH by auto
qed

lemma bulk_nth:
  assumes "i < length ts"
  shows "trades (updateTradesBulk Resolved us \<lparr>trades = ts, strategies = ss\<rparr>) ! i =
           (if id' (ts ! i) \<in> id' ` set us
            then last (filter (\<lambda>u. id' u = id' (ts ! i)) us) else ts ! i)"
  using assms by (simp add: updateTradesBulk_def updatesMap_last)

lemma last_filter_mem:
  assumes "k \<in> f ` set us"
  shows "last (filter (\<lambda>u. f u = k) us) \<in> set us \<and> f (last (filter (\<lambda>u. f u = k) us)) = k"
proof -
  from assms have ne: "filter (\<lambda>u. f u = k) us \<noteq> []"
    by (auto simp: filter_empty_conv)
  then have "last (filter (\<lambda>u. f u = k) us) \<in> set (filter (\<lambda>u. f u = k) us)"
    by (rule last_in_set)
  then show ?thesis by simp
qed

lemma bulk_ids:
  "map id' (trades (updateTradesBulk Resolved us st)) = map id' (trades st)"
proof -
  have "id' (case obj_get (updatesMap us) (id' t) of Some u \<Rightarrow> u | None \<Rightarrow> t) = id' t" for t
    by (auto split: option.splits dest: updatesMap_Some)
  then show ?thesis by (simp add: updateTradesBulk_def comp_def)
qed

text \<open>
  C9: when the database write completes, \<open>updateTradesBulk\<close> keeps the length of the
  collection and the order of its ids; a trade whose id is not in the update list stays
  as it is, a trade whose id is in the list is replaced by the (last) supplied trade with
  that id, and a supplied trade whose id is not in the collection does not enter it. When
  the write is rejected the store is unchanged.
\<close>

theorem updateTradesBulk_frame:
  "length (trades (updateTradesBulk Resolved us st)) = length (trades st) \<and>
   map id' (trades (updateTradesBulk Resolved us st)) = map id' (trades st) \<and>
   strategies (updateTradesBulk Resolved us st) = strategies st \<and>
   (\<forall>i < length (trades st).
      (id' (trades st ! i) \<notin> id' ` set us \<longrightarrow>
         trades (updateTradesBulk Resolved us st) ! i = trades st ! i) \<and>
      (id' (trades st ! i) \<in> id' ` set us \<longrightarrow>
         trades (updateTradesBulk Resolved us st) ! i =
           last (filter (\<lambda>u. id' u = id' (trades st ! i)) us) \<and>
         trades (updateTradesBulk Resolved us st) ! i \<in> set us \<and>
         id' (trades (updateTradesBulk Resolved us st) ! i) = id' (trades st ! i))) \<and>
   (\<forall>u \<in> set us. id' u \<notin> id' ` set (trades st) \<longrightarrow>
      id' u \<notin> id' ` set (trades (updateTradesBulk Resolved us st))) \<and>
   updateTradesBulk Rejected us st = st"
proof -
  obtain ts ss where st: "st = \<lparr>trades = ts, strategies = ss\<rparr>"
    by (cases st) auto
  have len: "length (trades (updateTradesBulk Resolved us st)) = length (trades st)"
    by (simp add: updateTradesBulk_def)
  have ids: "map id' (trades (updateTradesBulk Resolved us st)) = map id' (trades st)"
    by (rule bulk_ids)
  have strat: "strategies (updateTradesBulk Resolved us st) = strategies st"
    by (simp add: updateTradesBulk_def)
  have nth: "\<forall>i < length (trades st).
      (id' (trades st ! i) \<notin> id' ` set us \<longrightarrow>
         trades (updateTradesBulk Resolved us st) ! i = trades st ! i) \<and>
      (id' (trades st ! i) \<in> id' ` set us \<longrightarrow>
         trades (updateTradesBulk Resolved us st) ! i =
           last (filter (\<lambda>u. id' u = id' (trades st ! i)) us) \<and>
         trades (updateTradesBulk Resolved us st) ! i \<in> set us \<and>
         id' (trades (updateTradesBulk Resolved us st) ! i) = id' (trades st ! i))"
    unfolding st using last_filter_mem [of _ id' us] by (simp add: bulk_nth)
  have "set (map id' (trades (updateTradesBulk Resolved us st))) = set (map id' (trades st))"
    by (simp only: ids)
  then have fresh: "\<forall>u \<in> set us. id' u \<notin> id' ` set (trades st) \<longrightarrow>
      id' u \<notin> id' ` set (trades (updateTradesBulk Resolved us st))"
    by simp
  have rej: "updateTradesBulk Rejected us st = st"
    by (simp add: updateTradesBulk_def)
  from len ids strat nth fresh rej show ?thesis by blast
qed

theorem updateTradesBulk_frame_witness:
  "(0::nat) < length (trades \<lparr>trades = [sampleTrade ''1'' ''d1'' ''TCS'' Zerodha 100 110 10,
                                  sampleTrade ''2'' ''d2'' ''INFY'' Dhan 50 40 2], strategies = []\<rparr>) \<and>
   ''1'' \<in> id' ` set [(sampleTrade ''1'' ''d1'' ''TCS'' Zerodha 100 110 10)\<lparr>strategy := ''Breakout''\<rparr>,
                     sampleTrade ''3'' ''d3'' ''SBIN'' Fyers 1 2 3] \<and>
   ''2'' \<notin> id' ` set [(sampleTrade ''1'' ''d1'' ''TCS'' Zerodha 100 110 10)\<lparr>strategy := ''Breakout''\<rparr>,
                     sampleTrade ''3'' ''d3'' ''SBIN'' Fyers 1 2 3] \<and>
   trades (updateTradesBulk Resolved
      [(sampleTrade ''1'' ''d1'' ''TCS'' Zerodha 100 110 10)\<lparr>strategy := ''Breakout''\<rparr>,
       sampleTrade ''3'' ''d3'' ''SBIN'' Fyers 1 2 3]
      \<lparr>trades = [sampleTrade ''1'' ''d1'' ''TCS'' Zerodha 100 110 10,
                 sampleTrade ''2'' ''d2'' ''INFY'' Dhan 50 40 2], strategies = []\<rparr>) =
     [(sampleTrade ''1'' ''d1'' ''TCS'' Zerodha 100 110 10)\<lparr>strategy := ''Breakout''\<rparr>,
      sampleTrade ''2'' ''d2'' ''INFY'' Dhan 50 40 2]"
  using updateTradesBulk_frame
    [of "[(sampleTrade ''1'' ''d1'' ''TCS'' Zerodha 100 110 10)\<lparr>strategy := ''Breakout''\<rparr>,
          sampleTrade ''3'' ''d3'' ''SBIN'' Fyers 1 2 3]"
        "\<lparr>trades = [sampleTrade ''1'' ''d1'' ''TCS'' Zerodha 100 110 10,
                   sampleTrade ''2'' ''d2'' ''INFY'' Dhan 50 40 2], strategies = []\<rparr>"]
  by (simp add: sampleTrade_def updateTradesBulk_def updatesMap_def)

text \<open>
  C10: \<open>addStrategy\<close> leaves the store unchanged when the name is already in the list
  and otherwise appends the name; it keeps a list without duplicates free of duplicates,
  the default list has none, no other operation of the store touches the list, and so
  any series of additions to a duplicate-free list is duplicate-free.
\<close>

theorem addStrategy_distinct:
  "(s \<in> set (strategies st) \<longrightarrow> addStrategy s st = st) \<and>
   (s \<notin> set (strategies st) \<longrightarrow>
      strategies (addStrategy s st) = strategies st @ [s] \<and>
      trades (addStrategy s st) = trades st) \<and>
   (distinct (strategies st) \<longrightarrow> distinct (strategies (addStrategy s st))) \<and>
   (distinct (strategies st) \<longrightarrow> distinct (strategies (fold addStrategy names st))) \<and>
   distinct defaultStrategies \<and>
   strategies (addTrade db t st) = strategies st \<and>
   strategies (updateTrade db t st) = strategies st \<and>
   strategies (updateTradesBulk db us st) = strategies st \<and>
   strategies (importTrades L db us st) = strategies st"
proof -
  have step: "distinct (strategies x) \<Longrightarrow> distinct (strategies (addStrategy n x))" for n x
    by (simp add: addStrategy_def)
  have "distinct (strategies x) \<Longrightarrow> distinct (strategies (fold addStrategy ns x))" for ns x
    by (induction ns arbitrary: x) (simp_all add: step)
  moreover have "distinct defaultStrategies"
    by (simp add: defaultStrategies_def)
  moreover have "strategies (addTrade db t st) = strategies st"
    "strategies (updateTrade db t st) = strategies st"
    "strategies (updateTradesBulk db us st) = strategies st"
    "strategies (importTrades L db us st) = strategies st"
    by (cases db; simp add: addTrade_def updateTrade_def updateTradesBulk_def importTrades_def)+
  ultimately show ?thesis
    by (simp add: addStrategy_def)
qed

theorem addStrategy_distinct_witness:
  "''Manual'' \<in> set (strategies \<lparr>trades = [], strategies = defaultStrategies\<rparr>) \<and>
   addStrategy ''Manual'' \<lparr>trades = [], strategies = defaultStrategies\<rparr> =
     \<lparr>trades = [], strategies = defaultStrategies\<rparr> \<and>
   ''Scalping'' \<notin> set (strategies \<lparr>trades = [], strategies = defaultStrategies\<rparr>) \<and>
   distinct (strategies \<lparr>trades = [], strategies = defaultStrategies\<rparr>) \<and>
   strategies (fold addStrategy [''Scalping'', ''Manual'', ''Scalping'']
      \<lparr>trades = [], strategies = defaultStrategies\<rparr>) = defaultStrategies @ [''Scalping''] \<and>
   distinct (strategies (fold addStrategy [''Scalping'', ''Manual'', ''Scalping'']
      \<lparr>trades = [], strategies = defaultStrategies\<rparr>))"
  using addStrategy_distinct [of "''Manual''" "\<lparr>trades = [], strategies = defaultStrategies\<rparr>"]
    addStrategy_distinct [of "''Scalping''" "\<lparr>trades = [], strategies = defaultStrategies\<rparr>"
      "[''Scalping'', ''Manual'', ''Scalping'']"]
  by (simp add: defaultStrategies_def addStrategy_def)

section \<open>Properties of the metrics\<close>

lemma foldl_pnl: "foldl (\<lambda>acc t. acc + pnl t) a ts = a + sum_list (map pnl ts)"
  by (induction ts arbitrary: a) simp_all

lemma winRate_eq:
  "winRate (getMetrics L now ts) =
     (if ts = [] then 0
      else of_nat (length (filter (\<lambda>t. pnl t > 0) ts)) / of_nat (length ts) * 100)"
  by (simp add: getMetrics_def Let_def)

text \<open>
  C4: \<open>winRate\<close> is the number of trades with a positive \<open>pnl\<close> divided by the number
  of trades, times 100, and 0 for an empty collection; a trade whose \<open>pnl\<close> is exactly 0
  adds to the total and not to the wins. The rate lies between 0 and 100.
\<close>

theorem winRate_spec:
  "totalTrades (getMetrics L now ts) = length ts \<and>
   winRate (getMetrics L now ts) =
     (if totalTrades (getMetrics L now ts) = 0 then 0
      else of_nat (length (filter (\<lambda>t. pnl t > 0) ts)) /
           of_nat (totalTrades (getMetrics L now ts)) * 100) \<and>
   (pnl t = 0 \<longrightarrow>
      winRate (getMetrics L now (t # ts)) =
        of_nat (length (filter (\<lambda>t. pnl t > 0) ts)) / of_nat (Suc (length ts)) * 100) \<and>
   0 \<le> winRate (getMetrics L now ts) \<and> winRate (getMetrics L now ts) \<le> 100"
proof -
  have tot: "totalTrades (getMetrics L now ts) = length ts"
    by (simp add: getMetrics_def Let_def)
  have "length (filter (\<lambda>t. pnl t > 0) ts) \<le> length ts"
    by (rule length_filter_le)
  then have "(of_nat (length (filter (\<lambda>t. pnl t > 0) ts)) :: rat) \<le> of_nat (length ts)"
    by (simp only: of_nat_le_iff)
  then have up: "ts \<noteq> [] \<Longrightarrow>
      (of_nat (length (filter (\<lambda>t. pnl t > 0) ts)) :: rat) * 100 / of_nat (length ts) \<le> 100"
    by (simp add: divide_le_eq)
  have bounds: "0 \<le> winRate (getMetrics L now ts) \<and> winRate (getMetrics L now ts) \<le> 100"
    using up by (simp add: winRate_eq)
  have zero: "pnl t = 0 \<longrightarrow>
      winRate (getMetrics L now (t # ts)) =
        of_nat (length (filter (\<lambda>t. pnl t > 0) ts)) / of_nat (Suc (length ts)) * 100"
    by (simp add: winRate_eq)
  from tot bounds zero show ?thesis
    by (simp add: winRate_eq)
qed

theorem winRate_spec_witness:
  "pnl (sampleTrade ''2'' ''d'' ''INFY'' Dhan 50 50 4) = 0 \<and>
   winRate (getMetrics sampleLib 0
     [sampleTrade ''2'' ''d'' ''INFY'' Dhan 50 50 4,
      sampleTrade ''1'' ''d'' ''TCS'' Zerodha 100 110 10,
      sampleTrade ''3'' ''d'' ''SBIN'' Fyers 20 10 1]) = 100 / 3 \<and>
   winRate (getMetrics sampleLib 0 []) = 0"
  using winRate_spec [of sampleLib 0
      "[sampleTrade ''1'' ''d'' ''TCS'' Zerodha 100 110 10, sampleTrade ''3'' ''d'' ''SBIN'' Fyers 20 10 1]"
      "sampleTrade ''2'' ''d'' ''INFY'' Dhan 50 50 4"]
    winRate_spec [of sampleLib 0 "[]"]
  by (simp add: sampleTrade_def)

text \<open>
  C5: \<open>getMetrics\<close> reads the clock: \<open>tradesToday\<close> counts the trades of the current
  calendar day. The same collection gives different metrics on two different days.
\<close>

theorem getMetrics_clock_counterexample:
  "getMetrics sampleLib 36000000 [sampleTrade ''1'' ''1970-01-01T10:00:00.000Z'' ''TCS'' Zerodha 100 110 10]
     \<noteq> getMetrics sampleLib 122400000 [sampleTrade ''1'' ''1970-01-01T10:00:00.000Z'' ''TCS'' Zerodha 100 110 10]"
  by (simp add: getMetrics_def sampleLib_def sampleTrade_def Let_def)

text \<open>
  C5 as amended: the metrics are a function of the trade collection and of the current
  calendar day. Two calls on the same collection on the same day agree; between any two
  calls only \<open>tradesToday\<close> can differ, and it is the number of trades dated on the
  current day.
\<close>

theorem getMetrics_clock:
  "(toDateString L now1 = toDateString L now2 \<longrightarrow> getMetrics L now1 ts = getMetrics L now2 ts) \<and>
   getMetrics L now1 ts = (getMetrics L now2 ts)\<lparr>tradesToday := tradesToday (getMetrics L now1 ts)\<rparr> \<and>
   tradesToday (getMetrics L now1 ts) =
     length (filter (\<lambda>t. toDateString L (getTime L (date t)) = toDateString L now1) ts)"
  by (simp add: getMetrics_def Let_def)

theorem getMetrics_clock_witness:
  "toDateString sampleLib 122400000 = toDateString sampleLib 126000000 \<and>
   getMetrics sampleLib 122400000 [sampleTrade ''1'' ''1970-01-02T10:00:00.000Z'' ''TCS'' Zerodha 100 110 10] =
   getMetrics sampleLib 126000000 [sampleTrade ''1'' ''1970-01-02T10:00:00.000Z'' ''TCS'' Zerodha 100 110 10] \<and>
   tradesToday (getMetrics sampleLib 122400000 [sampleTrade ''1'' ''1970-01-02T10:00:00.000Z'' ''TCS'' Zerodha 100 110 10]) = 1"
  using getMetrics_clock [of sampleLib 122400000 126000000
     "[sampleTrade ''1'' ''1970-01-02T10:00:00.000Z'' ''TCS'' Zerodha 100 110 10]"]
  by (simp add: sampleLib_def sampleTrade_def getMetrics_def Let_def)

section \<open>The profit stored with a new trade\<close>








section \<open>Properties of the stable sort\<close>

lemma set_insertBy: "set (insertBy cmp x ys) = insert x (set ys)"
  by (induction ys) auto

lemma set_sortBy: "set (sortBy cmp xs) = set xs"
  by (induction xs) (simp_all add: sortBy_def set_insertBy)

lemma length_insertBy: "length (insertBy cmp x ys) = Suc (length ys)"
  by (induction ys) auto

lemma length_sortBy: "length (sortBy cmp xs) = length xs"
  by (induction xs) (simp_all add: sortBy_def length_insertBy)



lemma sorted_insertBy:
  assumes total: "\<And>a b. le a b \<or> le b a"
    and trans: "\<And>a b c. le a b \<Longrightarrow> le b c \<Longrightarrow> le a c"
    and cmp: "\<And>a b. cmp a b \<le> 0 \<longleftrightarrow> le a b"
    and sorted: "sorted_wrt le ys"
  shows "sorted_wrt le (insertBy cmp x ys)"
  using sorted
proof (induction ys)
  case Nil
  show ?case by simp
next
  case (Cons y ys)
  show ?case
  proof (cases "le x y")
    case True
    with Cons.prems trans have "\<forall>z \<in> set (y # ys). le x z"
      by auto
    with True Cons.prems show ?thesis
      by (simp add: cmp)
  next
    case False
    with total have "le y x" by blast
    with False Cons show ?thesis
      by (auto simp: cmp set_insertBy)
  qed
qed

lemma sorted_sortBy:
  assumes "\<And>a b. le a b \<or> le b a"
    and "\<And>a b c. le a b \<Longrightarrow> le b c \<Longrightarrow> le a c"
    and "\<And>a b. cmp a b \<le> 0 \<longleftrightarrow> le a b"
  shows "sorted_wrt le (sortBy cmp xs)"
proof (induction xs)
  case Nil
  show ?case by (simp add: sortBy_def)
next
  case (Cons x xs)
  have "sortBy cmp (x # xs) = insertBy cmp x (sortBy cmp xs)"
    by (simp add: sortBy_def)
  with Cons sorted_insertBy [of le cmp "sortBy cmp xs" x] assms show ?case
    by simp
qed

lemma sortBy_key_asc:
  fixes key :: "'a \<Rightarrow> 'k::linorder"
  assumes "\<And>a b. cmp a b \<le> 0 \<longleftrightarrow> key a \<le> key b"
  shows "sorted (map key (sortBy cmp xs))"
proof -
  have "sorted_wrt (\<lambda>a b. key a \<le> key b) (sortBy cmp xs)"
    by (rule sorted_sortBy) (use assms in auto)
  then show ?thesis by (simp add: sorted_map)
qed

lemma sortBy_key_desc:
  fixes key :: "'a \<Rightarrow> 'k::linorder"
  assumes "\<And>a b. cmp a b \<le> 0 \<longleftrightarrow> key b \<le> key a"
  shows "sorted (rev (map key (sortBy cmp xs)))"
proof -
  have "sorted_wrt (\<lambda>a b. key b \<le> key a) (sortBy cmp xs)"
    by (rule sorted_sortBy) (use assms in auto)
  then have "sorted_wrt (\<lambda>a b. b \<le> a) (map key (sortBy cmp xs))"
    by (simp add: sorted_wrt_map)
  then show ?thesis by (simp add: sorted_wrt_rev)
qed

section \<open>The comparator of the history view\<close>

lemma compare_date:
  "compareGroups L by_date dir a b =
     (if getTime L (date_g a) < getTime L (date_g b) then (if dir = asc then - 1 else 1)
      else if getTime L (date_g b) < getTime L (date_g a) then (if dir = asc then 1 else - 1)
      else 0)"
  by (simp add: compareGroups_def)

lemma compare_symbol:
  "compareGroups L by_symbol dir a b =
     (if toLowerCase (symbol_g a) < toLowerCase (symbol_g b) then (if dir = asc then - 1 else 1)
      else if toLowerCase (symbol_g b) < toLowerCase (symbol_g a) then (if dir = asc then 1 else - 1)
      else 0)"
  by (simp add: compareGroups_def)

lemma compare_broker:
  "compareGroups L by_broker dir a b =
     (if toLowerCase (broker_g a) < toLowerCase (broker_g b) then (if dir = asc then - 1 else 1)
      else if toLowerCase (broker_g b) < toLowerCase (broker_g a) then (if dir = asc then 1 else - 1)
      else 0)"
  by (simp add: compareGroups_def)

lemma sort_date:
  "sorted (map (\<lambda>g. getTime L (date_g g)) (sortBy (compareGroups L by_date asc) gs))"
  "sorted (rev (map (\<lambda>g. getTime L (date_g g)) (sortBy (compareGroups L by_date desc) gs)))"
  by (rule sortBy_key_asc sortBy_key_desc; auto simp: compare_date)+

lemma sort_symbol:
  "sorted (map (\<lambda>g. toLowerCase (symbol_g g)) (sortBy (compareGroups L by_symbol asc) gs))"
  "sorted (rev (map (\<lambda>g. toLowerCase (symbol_g g)) (sortBy (compareGroups L by_symbol desc) gs)))"
  by (rule sortBy_key_asc sortBy_key_desc; auto simp: compare_symbol)+

lemma sort_broker:
  "sorted (map (\<lambda>g. toLowerCase (broker_g g)) (sortBy (compareGroups L by_broker asc) gs))"
  "sorted (rev (map (\<lambda>g. toLowerCase (broker_g g)) (sortBy (compareGroups L by_broker desc) gs)))"
  by (rule sortBy_key_asc sortBy_key_desc; auto simp: compare_broker)+

text \<open>
  C7: on the date field the comparator ranks two groups by the instants their dates
  denote, and on the symbol and broker fields by the lower-cased strings, with the sign
  reversed for the descending direction. The sorted view is therefore ordered by instant,
  respectively by lower-cased text, ascending or descending as asked.
\<close>

theorem sort_by_instant_and_case:
  "compareGroups L by_date dir a b =
     (if getTime L (date_g a) < getTime L (date_g b) then (if dir = asc then - 1 else 1)
      else if getTime L (date_g b) < getTime L (date_g a) then (if dir = asc then 1 else - 1)
      else 0) \<and>
   compareGroups L by_symbol dir a b =
     (if toLowerCase (symbol_g a) < toLowerCase (symbol_g b) then (if dir = asc then - 1 else 1)
      else if toLowerCase (symbol_g b) < toLowerCase (symbol_g a) then (if dir = asc then 1 else - 1)
      else 0) \<and>
   compareGroups L by_broker dir a b =
     (if toLowerCase (broker_g a) < toLowerCase (broker_g b) then (if dir = asc then - 1 else 1)
      else if toLowerCase (broker_g b) < toLowerCase (broker_g a) then (if dir = asc then 1 else - 1)
      else 0) \<and>
   sorted (map (\<lambda>g. getTime L (date_g g)) (groupedTrades L F by_date asc ts)) \<and>
   sorted (rev (map (\<lambda>g. getTime L (date_g g)) (groupedTrades L F by_date desc ts))) \<and>
   sorted (map (\<lambda>g. toLowerCase (symbol_g g)) (groupedTrades L F by_symbol asc ts)) \<and>
   sorted (rev (map (\<lambda>g. toLowerCase (symbol_g g)) (groupedTrades L F by_symbol desc ts))) \<and>
   sorted (map (\<lambda>g. toLowerCase (broker_g g)) (groupedTrades L F by_broker asc ts)) \<and>
   sorted (rev (map (\<lambda>g. toLowerCase (broker_g g)) (groupedTrades L F by_broker desc ts)))"
  unfolding groupedTrades_def
  by (simp only: compare_date compare_symbol compare_broker sort_date sort_symbol sort_broker
      simp_thms)

theorem sort_by_instant_and_case_witness:
  "compareGroups sampleLib by_date asc sampleGroupA sampleGroupB = - 1 \<and>
   compareGroups sampleLib by_date desc sampleGroupA sampleGroupB = 1 \<and>
   toDateString sampleLib (getTime sampleLib (date_g sampleGroupB))
     < toDateString sampleLib (getTime sampleLib (date_g sampleGroupA)) \<and>
   symbol_g sampleGroupB < symbol_g sampleGroupA \<and>
   compareGroups sampleLib by_symbol asc sampleGroupA sampleGroupB = - 1 \<and>
   compareGroups sampleLib by_symbol desc sampleGroupA sampleGroupB = 1 \<and>
   compareGroups sampleLib by_broker asc sampleGroupA sampleGroupB = 1 \<and>
   map symbol_g (groupedTrades sampleLib noFilters by_symbol asc
     [sampleTrade ''1'' ''1970-01-02T10:00:00.000Z'' ''XYZ'' Dhan 50 40 2,
      sampleTrade ''2'' ''1970-01-01T10:00:00.000Z'' ''abc'' Zerodha 100 110 3]) = [''abc'', ''XYZ''] \<and>
   map symbol_g (groupedTrades sampleLib noFilters by_date desc
     [sampleTrade ''2'' ''1970-01-01T10:00:00.000Z'' ''abc'' Zerodha 100 110 3,
      sampleTrade ''1'' ''1970-01-02T10:00:00.000Z'' ''XYZ'' Dhan 50 40 2]) = [''XYZ'', ''abc'']"
proof -
  have lower: "toLowerCase ''abc'' = ''abc''" "toLowerCase ''XYZ'' = ''xyz''"
    "toLowerCase ''Zerodha'' = ''zerodha''" "toLowerCase ''Dhan'' = ''dhan''"
    by code_simp+
  have cmp: "compareGroups sampleLib by_date asc sampleGroupA sampleGroupB = - 1"
    "compareGroups sampleLib by_date desc sampleGroupA sampleGroupB = 1"
    "compareGroups sampleLib by_symbol asc sampleGroupA sampleGroupB = - 1"
    "compareGroups sampleLib by_symbol desc sampleGroupA sampleGroupB = 1"
    "compareGroups sampleLib by_broker asc sampleGroupA sampleGroupB = 1"
    using sort_by_instant_and_case [of sampleLib asc sampleGroupA sampleGroupB]
      sort_by_instant_and_case [of sampleLib desc sampleGroupA sampleGroupB]
    by (simp_all add: sampleLib_def sampleGroupA_def sampleGroupB_def lower)
  have raw: "toDateString sampleLib (getTime sampleLib (date_g sampleGroupB))
     < toDateString sampleLib (getTime sampleLib (date_g sampleGroupA))"
    "symbol_g sampleGroupB < symbol_g sampleGroupA"
    by (simp_all add: sampleLib_def sampleGroupA_def sampleGroupB_def)
  have sorted: "map symbol_g (groupedTrades sampleLib noFilters by_symbol asc
     [sampleTrade ''1'' ''1970-01-02T10:00:00.000Z'' ''XYZ'' Dhan 50 40 2,
      sampleTrade ''2'' ''1970-01-01T10:00:00.000Z'' ''abc'' Zerodha 100 110 3]) = [''abc'', ''XYZ'']"
    "map symbol_g (groupedTrades sampleLib noFilters by_date desc
     [sampleTrade ''2'' ''1970-01-01T10:00:00.000Z'' ''abc'' Zerodha 100 110 3,
      sampleTrade ''1'' ''1970-01-02T10:00:00.000Z'' ''XYZ'' Dhan 50 40 2]) = [''XYZ'', ''abc'']"
    by code_simp+
  from cmp raw sorted show ?thesis by simp
qed

section \<open>Properties of the grouping\<close>

lemma obj_set_twice: "obj_set k v2 (obj_set k v1 m) = obj_set k v2 m"
  by (induction m) auto

lemma set_obj_set:
  "distinct (map fst m) \<Longrightarrow> set (obj_set k v m) = insert (k, v) {p \<in> set m. fst p \<noteq> k}"
  by (induction m) force+

lemma obj_get_Some_iff:
  "distinct (map fst m) \<Longrightarrow> obj_get m k = Some v \<longleftrightarrow> (k, v) \<in> set m"
  by (induction m) force+

lemma distinct_obj_set: "distinct (map fst m) \<Longrightarrow> distinct (map fst (obj_set k v m))"
  by (simp add: keys_obj_set)


lemma addToGroups_eq:
  "addToGroups L t m =
     (case obj_get m (groupKey L t) of
        None \<Rightarrow> obj_set (groupKey L t) (pushTrade t (newGroup (groupKey L t) t)) m
      | Some g \<Rightarrow> obj_set (groupKey L t) (pushTrade t g) m)"
  by (simp add: addToGroups_def Let_def obj_get_obj_set obj_set_twice split: option.splits)





lemma groupsInv_step:
  assumes inv: "groupsInv L ts m"
  shows "groupsInv L (ts @ [t]) (addToGroups L t m)"
proof -
  let ?k = "groupKey L t"
  from inv have dist: "distinct (map fst m)"
    and keys: "fst ` set m = groupKey L ` set ts"
    and ent: "\<And>p. p \<in> set m \<Longrightarrow>
        id_g (snd p) = fst p \<and>
        trades_g (snd p) = filter (\<lambda>t. groupKey L t = fst p) ts \<and>
        totalPnL_g (snd p) = sum_list (map pnl (trades_g (snd p))) \<and>
        totalQty (snd p) = sum_list (map quantity (trades_g (snd p)))"
    by (auto simp: groupsInv_def)
  define v where "v = (case obj_get m ?k of None \<Rightarrow> pushTrade t (newGroup ?k t)
                        | Some g \<Rightarrow> pushTrade t g)"
  have new: "addToGroups L t m = obj_set ?k v m"
    by (simp add: addToGroups_eq v_def split: option.splits)
  have v: "id_g v = ?k \<and>
        trades_g v = filter (\<lambda>u. groupKey L u = ?k) (ts @ [t]) \<and>
        totalPnL_g v = sum_list (map pnl (trades_g v)) \<and>
        totalQty v = sum_list (map quantity (trades_g v))"
  proof (cases "obj_get m ?k")
    case None
    then have "?k \<notin> groupKey L ` set ts"
      using keys by (simp add: obj_get_None_iff)
    then have "\<And>x. x \<in> set ts \<Longrightarrow> groupKey L x \<noteq> ?k"
      by (metis imageI)
    then have "filter (\<lambda>u. groupKey L u = ?k) ts = []"
      by (simp add: filter_empty_conv)
    with None show ?thesis
      by (simp add: v_def pushTrade_def newGroup_def)
  next
    case (Some g)
    then have "(?k, g) \<in> set m"
      by (rule obj_get_Some_mem)
    from ent [OF this] Some show ?thesis
      by (simp add: v_def pushTrade_def)
  qed
  have set_new: "set (obj_set ?k v m) = insert (?k, v) {p \<in> set m. fst p \<noteq> ?k}"
    using dist by (rule set_obj_set)
  have d: "distinct (map fst (obj_set ?k v m))"
    using dist by (rule distinct_obj_set)
  have k: "fst ` set (obj_set ?k v m) = groupKey L ` set (ts @ [t])"
    unfolding set_new using keys by force
  have e: "\<forall>p \<in> set (obj_set ?k v m).
        id_g (snd p) = fst p \<and>
        trades_g (snd p) = filter (\<lambda>t. groupKey L t = fst p) (ts @ [t]) \<and>
        totalPnL_g (snd p) = sum_list (map pnl (trades_g (snd p))) \<and>
        totalQty (snd p) = sum_list (map quantity (trades_g (snd p)))"
    unfolding set_new using v ent by auto
  from d k e show ?thesis
    unfolding new groupsInv_def by blast
qed

lemma groupsInv_fold: "groupsInv L ts (fold (addToGroups L) ts [])"
proof (induction ts rule: rev_induct)
  case Nil
  show ?case by (simp add: groupsInv_def)
next
  case (snoc t ts)
  then show ?case by (simp add: groupsInv_step)
qed

lemma groupTrades_groups:
  assumes "g \<in> set (groupTrades L ts)"
  shows "trades_g g = filter (\<lambda>t. groupKey L t = id_g g) ts \<and> trades_g g \<noteq> [] \<and>
     totalPnL_g g = sum_list (map pnl (trades_g g)) \<and>
     totalQty g = sum_list (map quantity (trades_g g))"
proof -
  from assms obtain p where p: "p \<in> set (fold (addToGroups L) ts [])" and g: "g = snd p"
    by (auto simp: groupTrades_def Object_values_def)
  from groupsInv_fold [of L ts] p
  have ent: "id_g g = fst p" "trades_g g = filter (\<lambda>t. groupKey L t = fst p) ts"
    "totalPnL_g g = sum_list (map pnl (trades_g g))"
    "totalQty g = sum_list (map quantity (trades_g g))"
    and key: "fst p \<in> groupKey L ` set ts"
    unfolding g groupsInv_def by auto
  from key ent(2) have "trades_g g \<noteq> []"
    by (auto simp: filter_empty_conv)
  with ent show ?thesis by simp
qed


lemma groupTrades_cover:
  assumes "t \<in> set ts"
  shows "\<exists>g \<in> set (groupTrades L ts). id_g g = groupKey L t \<and> t \<in> set (trades_g g)"
proof -
  from groupsInv_fold [of L ts] assms
  obtain p where p: "p \<in> set (fold (addToGroups L) ts [])" and k: "fst p = groupKey L t"
    unfolding groupsInv_def by (metis (no_types, lifting) image_iff)
  from groupsInv_fold [of L ts] p have "id_g (snd p) = fst p"
    "trades_g (snd p) = filter (\<lambda>t. groupKey L t = fst p) ts"
    unfolding groupsInv_def by auto
  with assms k have "id_g (snd p) = groupKey L t \<and> t \<in> set (trades_g (snd p))"
    by simp
  moreover from p have "snd p \<in> set (groupTrades L ts)"
    by (simp add: groupTrades_def Object_values_def)
  ultimately show ?thesis by blast
qed

lemma groupedTrades_set:
  "set (groupedTrades L F field dir ts) = set (groupTrades L (filter (passesFilters F) ts))"
  by (simp add: groupedTrades_def set_sortBy)







lemma passes_absent:
  assumes "productType t = None"
  shows "passesFilters (F\<lparr>filterProductType := ''Delivery''\<rparr>) t =
           passesFilters (F\<lparr>filterProductType := ''All''\<rparr>) t"
    and "\<not> passesFilters (F\<lparr>filterProductType := ''Intraday''\<rparr>) t"
  using assms by (simp_all add: passesFilters_def)

lemma passes_Intraday:
  "passesFilters (F\<lparr>filterProductType := ''Intraday''\<rparr>) t \<Longrightarrow> productType t = Some Intraday"
  by (cases "productType t"; cases "the (productType t)")
    (auto simp: passesFilters_def split: if_splits)

text \<open>
  C8: a trade without a \<open>productType\<close> passes the filter \<open>'Delivery'\<close> exactly if it
  passes with the product filter off, and never passes the filter \<open>'Intraday'\<close>. So
  under \<open>'Delivery'\<close> such a trade of the collection, if the other filters let it pass,
  is kept and lies in a group of the view; under \<open>'Intraday'\<close> it is dropped and every
  trade in every group is an intraday trade.
\<close>

theorem productType_absent_is_Delivery:
  "(productType t = None \<longrightarrow>
      passesFilters (F\<lparr>filterProductType := ''Delivery''\<rparr>) t =
        passesFilters (F\<lparr>filterProductType := ''All''\<rparr>) t \<and>
      \<not> passesFilters (F\<lparr>filterProductType := ''Intraday''\<rparr>) t) \<and>
   (\<forall>t \<in> set ts. productType t = None \<and> passesFilters (F\<lparr>filterProductType := ''All''\<rparr>) t \<longrightarrow>
      t \<in> set (filter (passesFilters (F\<lparr>filterProductType := ''Delivery''\<rparr>)) ts) \<and>
      (\<exists>g \<in> set (groupedTrades L (F\<lparr>filterProductType := ''Delivery''\<rparr>) field dir ts).
         t \<in> set (trades_g g))) \<and>
   (\<forall>t \<in> set ts. productType t = None \<longrightarrow>
      t \<notin> set (filter (passesFilters (F\<lparr>filterProductType := ''Intraday''\<rparr>)) ts)) \<and>
   (\<forall>g \<in> set (groupedTrades L (F\<lparr>filterProductType := ''Intraday''\<rparr>) field dir ts).
      \<forall>t \<in> set (trades_g g). productType t = Some Intraday)"
proof -
  let ?D = "F\<lparr>filterProductType := ''Delivery''\<rparr>"
  let ?I = "F\<lparr>filterProductType := ''Intraday''\<rparr>"
  have a: "productType t = None \<longrightarrow>
      passesFilters ?D t = passesFilters (F\<lparr>filterProductType := ''All''\<rparr>) t \<and>
      \<not> passesFilters ?I t"
    using passes_absent [of t F] by blast
  have b: "\<forall>t \<in> set ts. productType t = None \<and> passesFilters (F\<lparr>filterProductType := ''All''\<rparr>) t \<longrightarrow>
      t \<in> set (filter (passesFilters ?D) ts) \<and>
      (\<exists>g \<in> set (groupedTrades L ?D field dir ts). t \<in> set (trades_g g))"
  proof (intro ballI impI)
    fix x
    assume x: "x \<in> set ts"
      and "productType x = None \<and> passesFilters (F\<lparr>filterProductType := ''All''\<rparr>) x"
    then have "passesFilters ?D x"
      using passes_absent(1) [of x F] by simp
    with x have mem: "x \<in> set (filter (passesFilters ?D) ts)"
      by simp
    from groupTrades_cover [OF mem, of L]
    have "\<exists>g \<in> set (groupedTrades L ?D field dir ts). x \<in> set (trades_g g)"
      unfolding groupedTrades_set by blast
    with mem show "x \<in> set (filter (passesFilters ?D) ts) \<and>
      (\<exists>g \<in> set (groupedTrades L ?D field dir ts). x \<in> set (trades_g g))"
      by blast
  qed
  have c: "\<forall>t \<in> set ts. productType t = None \<longrightarrow> t \<notin> set (filter (passesFilters ?I) ts)"
    using passes_absent(2) [of _ F] by simp
  have d: "\<forall>g \<in> set (groupedTrades L ?I field dir ts).
      \<forall>t \<in> set (trades_g g). productType t = Some Intraday"
  proof (intro ballI)
    fix g x
    assume "g \<in> set (groupedTrades L ?I field dir ts)" and x: "x \<in> set (trades_g g)"
    then have "g \<in> set (groupTrades L (filter (passesFilters ?I) ts))"
      by (simp add: groupedTrades_set)
    from groupTrades_groups [OF this] x have "passesFilters ?I x"
      by simp
    then show "productType x = Some Intraday"
      by (rule passes_Intraday)
  qed
  from a b c d show ?thesis by blast
qed

theorem productType_absent_is_Delivery_witness:
  "productType (sampleTrade ''1'' ''1970-01-02T10:00:00.000Z'' ''TCS'' Zerodha 100 105 10) = None \<and>
   passesFilters (noFilters\<lparr>filterProductType := ''All''\<rparr>)
     (sampleTrade ''1'' ''1970-01-02T10:00:00.000Z'' ''TCS'' Zerodha 100 105 10) \<and>
   map (map id' \<circ> trades_g) (groupedTrades sampleLib (noFilters\<lparr>filterProductType := ''Delivery''\<rparr>)
     by_date desc
     [sampleTrade ''1'' ''1970-01-02T10:00:00.000Z'' ''TCS'' Zerodha 100 105 10,
      (sampleTrade ''2'' ''1970-01-01T10:00:00.000Z'' ''INFY'' Dhan 50 60 3)
        \<lparr>productType := Some Intraday\<rparr>]) = [[''1'']] \<and>
   map (map id' \<circ> trades_g) (groupedTrades sampleLib (noFilters\<lparr>filterProductType := ''Intraday''\<rparr>)
     by_date desc
     [sampleTrade ''1'' ''1970-01-02T10:00:00.000Z'' ''TCS'' Zerodha 100 105 10,
      (sampleTrade ''2'' ''1970-01-01T10:00:00.000Z'' ''INFY'' Dhan 50 60 3)
        \<lparr>productType := Some Intraday\<rparr>]) = [[''2'']] \<and>
   (\<exists>g \<in> set (groupedTrades sampleLib (noFilters\<lparr>filterProductType := ''Delivery''\<rparr>) by_date desc
       [sampleTrade ''1'' ''1970-01-02T10:00:00.000Z'' ''TCS'' Zerodha 100 105 10,
        (sampleTrade ''2'' ''1970-01-01T10:00:00.000Z'' ''INFY'' Dhan 50 60 3)
          \<lparr>productType := Some Intraday\<rparr>]).
      sampleTrade ''1'' ''1970-01-02T10:00:00.000Z'' ''TCS'' Zerodha 100 105 10 \<in> set (trades_g g))"
proof -
  let ?t = "sampleTrade ''1'' ''1970-01-02T10:00:00.000Z'' ''TCS'' Zerodha 100 105 10"
  let ?ts = "[?t, (sampleTrade ''2'' ''1970-01-01T10:00:00.000Z'' ''INFY'' Dhan 50 60 3)
        \<lparr>productType := Some Intraday\<rparr>]"
  have h: "?t \<in> set ?ts" "productType ?t = None"
    "passesFilters (noFilters\<lparr>filterProductType := ''All''\<rparr>) ?t"
    by (simp_all add: sampleTrade_def passesFilters_def noFilters_def)
  have vals: "map (map id' \<circ> trades_g)
      (groupedTrades sampleLib (noFilters\<lparr>filterProductType := ''Delivery''\<rparr>) by_date desc ?ts) = [[''1'']]"
    "map (map id' \<circ> trades_g)
      (groupedTrades sampleLib (noFilters\<lparr>filterProductType := ''Intraday''\<rparr>) by_date desc ?ts) = [[''2'']]"
    by code_simp+
  have ex: "\<exists>g \<in> set (groupedTrades sampleLib (noFilters\<lparr>filterProductType := ''Delivery''\<rparr>) by_date desc ?ts).
      ?t \<in> set (trades_g g)"
    by (rule productType_absent_is_Delivery [of ?t noFilters ?ts sampleLib by_date desc,
          THEN conjunct2, THEN conjunct1, THEN bspec, OF h(1), THEN mp, OF conjI [OF h(2) h(3)],
          THEN conjunct2])
  show ?thesis
    by (intro conjI) (rule h vals ex)+
qed

section \<open>Properties of the best broker\<close>










section \<open>Properties of the statistics per symbol and per strategy\<close>













end
